theory Spec2Isabelle
  imports Main "HOL-Library.Sublist"
begin

section \<open>The LinkedIn field normalizer (linkedin\_scraper.js)\<close>

text \<open>
  A field of a record returned by the LinkedIn query is a string, is \<open>null\<close>, or is
  absent (reading it gives \<open>undefined\<close>). A raw record is the function from property
  names to these values. Strings are byte strings; \<open>toLowerCase\<close> is modelled on the
  ASCII letters.
\<close>

datatype rawval = Undefined | Null | Str string

type_synonym raw_job = "string \<Rightarrow> rawval"

datatype js_error = TypeError

text \<open>The values that the fields of a processed job hold.\<close>

datatype jsval = JUndefined | JNull | JBool bool | JNum int | JStr string | JArr "string list"

text \<open>One entry of \<open>searchCombinations\<close>; only the properties the normalizer reads.\<close>

record combo =
  keyword :: string
  location :: string
  experienceLevel :: string

definition toLowerCase_char :: "char \<Rightarrow> char" where
  "toLowerCase_char c =
     (let n = (of_char c :: nat) in if 65 \<le> n \<and> n \<le> 90 then char_of (n + 32) else c)"

definition toLowerCase :: "string \<Rightarrow> string" where
  "toLowerCase s = map toLowerCase_char s"

text \<open>\<open>s.includes(sub)\<close>: \<open>sub\<close> occurs in \<open>s\<close> as a contiguous substring.\<close>

fun includes_str :: "string \<Rightarrow> string \<Rightarrow> bool" where
  "includes_str [] sub = (sub = [])"
| "includes_str (c # cs) sub = (prefix sub (c # cs) \<or> includes_str cs sub)"

text \<open>\<open>v.toLowerCase()\<close> raises a TypeError when \<open>v\<close> is \<open>undefined\<close> or \<open>null\<close>.\<close>

fun toLowerCase_of :: "rawval \<Rightarrow> js_error + string" where
  "toLowerCase_of (Str s) = Inr (toLowerCase s)"
| "toLowerCase_of Undefined = Inl TypeError"
| "toLowerCase_of Null = Inl TypeError"

definition determineJobType :: "rawval \<Rightarrow> js_error + string" where
  "determineJobType company =
     (case toLowerCase_of company of
        Inl e \<Rightarrow> Inl e
      | Inr companyLower \<Rightarrow>
          if includes_str companyLower ''university'' \<or> includes_str companyLower ''college''
            then Inr ''faculty''
          else if includes_str companyLower ''government'' \<or> includes_str companyLower ''federal''
            then Inr ''government''
          else if includes_str companyLower ''united nations'' \<or> includes_str companyLower ''oecd''
            then Inr ''international''
          else if includes_str companyLower ''foundation'' \<or> includes_str companyLower ''nonprofit''
            then Inr ''nonprofit''
          else Inr ''industry'')"

text \<open>
  \<open>[...new Set(tags)]\<close>: a Set keeps its elements in insertion order and ignores the
  insertion of an element it already holds.
\<close>

definition set_add :: "'a \<Rightarrow> 'a list \<Rightarrow> 'a list" where
  "set_add x s = (if x \<in> set s then s else s @ [x])"

definition new_Set :: "'a list \<Rightarrow> 'a list" where
  "new_Set xs = fold set_add xs []"

text \<open>\<open>tags.push(t)\<close> under a condition.\<close>

definition push_if :: "bool \<Rightarrow> 'a \<Rightarrow> 'a list \<Rightarrow> 'a list" where
  "push_if b t tags = (if b then tags @ [t] else tags)"

definition generateTags :: "rawval \<Rightarrow> string \<Rightarrow> js_error + string list" where
  "generateTags title searchQuery =
     (case toLowerCase_of title of
        Inl e \<Rightarrow> Inl e
      | Inr content \<Rightarrow>
          (let tags = [searchQuery];
               tags = push_if (includes_str content ''ai'' \<or> includes_str content ''artificial intelligence'')
                        ''AI'' tags;
               tags = push_if (includes_str content ''ethics'') ''Ethics'' tags;
               tags = push_if (includes_str content ''policy'') ''Policy'' tags;
               tags = push_if (includes_str content ''research'') ''Research'' tags;
               tags = push_if (includes_str content ''senior'' \<or> includes_str content ''lead'')
                        ''Senior'' tags
           in Inr (new_Set tags)))"

text \<open>\<open>v || d\<close> for a string default: \<open>undefined\<close>, \<open>null\<close> and the empty string are falsy.\<close>

fun or_default :: "rawval \<Rightarrow> string \<Rightarrow> string" where
  "or_default (Str s) d = (if s = [] then d else s)"
| "or_default Undefined d = d"
| "or_default Null d = d"

text \<open>A value inside a template literal.\<close>

fun template :: "rawval \<Rightarrow> string" where
  "template (Str s) = s"
| "template Undefined = ''undefined''"
| "template Null = ''null''"

text \<open>
  \<open>combo.location === 'Remote' || job.location?.toLowerCase().includes('remote')\<close>: the
  optional chain gives \<open>undefined\<close> when the location is \<open>undefined\<close> or \<open>null\<close>.
\<close>

fun is_remote_of :: "combo \<Rightarrow> rawval \<Rightarrow> jsval" where
  "is_remote_of c (Str s) =
     (if location c = ''Remote'' then JBool True else JBool (includes_str (toLowerCase s) ''remote''))"
| "is_remote_of c Undefined = (if location c = ''Remote'' then JBool True else JUndefined)"
| "is_remote_of c Null = (if location c = ''Remote'' then JBool True else JUndefined)"

text \<open>
  The body of \<open>jobs.map(job => ({...}))\<close>, the properties in the order in which the
  object literal evaluates them; \<open>today\<close> is
  \<open>new Date().toISOString().split('T')[0]\<close>. No search combination has a
  \<open>gemini_analyze\<close> property, so \<open>combo.gemini_analyze || false\<close> is \<open>false\<close>.
\<close>

definition processJob :: "combo \<Rightarrow> string \<Rightarrow> raw_job \<Rightarrow> js_error + (string \<times> jsval) list" where
  "processJob c today job =
     (case determineJobType (job ''company'') of
        Inl e \<Rightarrow> Inl e
      | Inr jt \<Rightarrow>
         (case generateTags (job ''position'') (keyword c) of
            Inl e \<Rightarrow> Inl e
          | Inr tgs \<Rightarrow> Inr
             [(''title'', JStr (or_default (job ''position'') ''Unknown Position'')),
              (''company'', JStr (or_default (job ''company'') ''Unknown Company'')),
              (''location'', JStr (or_default (job ''location'') (location c))),
              (''job_type'', JStr jt),
              (''category'', JStr ''research''),
              (''description'', JStr (''LinkedIn: '' @ template (job ''position'') @ '' at ''
                   @ template (job ''company'') @ ''. Query: '' @ keyword c)),
              (''posting_date'', JStr (or_default (job ''date'') today)),
              (''deadline'', JNull),
              (''source_url'', JStr (or_default (job ''jobUrl'') '''')),
              (''source_site'', JStr ''linkedin''),
              (''tags'', JArr tgs),
              (''relevance_score'', JNum 60),
              (''salary_info'', JStr (or_default (job ''salary'') '''')),
              (''is_remote'', is_remote_of c (job ''location'')),
              (''search_query'', JStr (keyword c)),
              (''experience_level'', JStr (experienceLevel c)),
              (''company_logo'', JStr (or_default (job ''companyLogo'') '''')),
              (''ago_time'', JStr (or_default (job ''agoTime'') '''')),
              (''gemini_analyze'', JBool False)]))"

section \<open>The integration script (integrate\_data.py)\<close>

text \<open>
  A job read from a staging file is a dictionary. Each key that the script reads is a
  field here, \<open>None\<close> when the dictionary lacks the key; a key that is present holds a
  value of the type the staging files give it.
\<close>

record job =
  title :: "string option"
  company :: "string option"
  source_url :: "string option"
  source_site :: "string option"
  job_type :: "string option"
  category :: "string option"
  relevance_score :: "int option"
  gemini_analyzed :: "bool option"
  is_remote :: "bool option"

text \<open>\<open>d.get(key, default)\<close>.\<close>

fun dict_get :: "'a option \<Rightarrow> 'a \<Rightarrow> 'a" where
  "dict_get None d = d"
| "dict_get (Some v) d = v"

text \<open>The \<open>identifier\<close> that the loop over \<open>all_jobs\<close> computes for a job.\<close>

definition job_identifier :: "job \<Rightarrow> string" where
  "job_identifier j =
     (let url = dict_get (source_url j) [];
          title_company = dict_get (title j) [] @ ''-'' @ dict_get (company j) []
      in if url \<noteq> [] then url else title_company)"

text \<open>
  The loop \<open>for job in all_jobs\<close>, with its state \<open>seen\<close> and \<open>unique_jobs\<close>;
  the result is \<open>unique_jobs\<close> after the last iteration.
\<close>

fun dedup_loop :: "job list \<Rightarrow> string set \<Rightarrow> job list \<Rightarrow> job list" where
  "dedup_loop [] seen unique_jobs = unique_jobs"
| "dedup_loop (j # rest) seen unique_jobs =
     (if job_identifier j \<notin> seen
      then dedup_loop rest (insert (job_identifier j) seen) (unique_jobs @ [j])
      else dedup_loop rest seen unique_jobs)"

definition remove_duplicates :: "job list \<Rightarrow> job list" where
  "remove_duplicates all_jobs = dedup_loop all_jobs {} []"

text \<open>
  \<open>list.sort(key=f, reverse=True)\<close> is a stable sort that keeps the elements with equal
  keys in their original order also when reversed: the list is reversed, sorted stably in
  ascending order of the key, and reversed again.
\<close>

definition list_sort :: "('a \<Rightarrow> int) \<Rightarrow> bool \<Rightarrow> 'a list \<Rightarrow> 'a list" where
  "list_sort f reverse xs = (if reverse then rev (sort_key f (rev xs)) else sort_key f xs)"

text \<open>The key \<open>lambda x: x.get('relevance_score', 0)\<close>.\<close>

definition relevance_key :: "job \<Rightarrow> int" where
  "relevance_key x = dict_get (relevance_score x) 0"

definition rank :: "job list \<Rightarrow> job list" where
  "rank unique_jobs = list_sort relevance_key True unique_jobs"

text \<open>
  The statistics. \<open>len\<close> gives an \<open>int\<close>; the counter \<open>gemini_analyzed\<close> of the script
  is \<open>gemini_analyzed_jobs\<close> here, the field of that name being taken by the job.
\<close>

record source_counts =
  academic :: int
  jsearch :: int
  rss :: int
  linkedin :: int

record stats =
  total_jobs :: int
  academic_jobs :: int
  jsearch_jobs :: int
  rss_jobs :: int
  linkedin_jobs :: int
  duplicates_removed :: int
  high_relevance :: int
  gemini_analyzed_jobs :: int
  remote_jobs :: int
  by_job_type :: "string \<rightharpoonup> int"
  by_category :: "string \<rightharpoonup> int"
  sources :: source_counts

definition len :: "'a list \<Rightarrow> int" where
  "len xs = int (length xs)"

text \<open>\<open>d[k] = d.get(k, 0) + 1\<close>.\<close>

definition count_up :: "string \<Rightarrow> (string \<rightharpoonup> int) \<Rightarrow> (string \<rightharpoonup> int)" where
  "count_up k d = d(k \<mapsto> dict_get (d k) 0 + 1)"

text \<open>
  A staging file as \<open>load_json_safely\<close> returns it: the value under \<open>'jobs'\<close>, or
  \<open>None\<close> when the loaded dictionary has no such key. A file that is missing or does not
  parse is loaded as \<open>{'jobs': [], 'metadata': {}}\<close>, that is \<open>Some []\<close>.
\<close>

type_synonym source_data = "job list option"

definition combine :: "source_data \<Rightarrow> source_data \<Rightarrow> source_data \<Rightarrow> job list" where
  "combine academic_data rss_data linkedin_data =
     dict_get academic_data [] @ dict_get rss_data [] @ dict_get linkedin_data []"

definition calculate_stats ::
  "source_data \<Rightarrow> source_data \<Rightarrow> source_data \<Rightarrow> job list \<Rightarrow> job list \<Rightarrow> stats" where
  "calculate_stats academic_data rss_data linkedin_data all_jobs unique_jobs =
     \<lparr> total_jobs = len unique_jobs,
       academic_jobs = len (dict_get academic_data []),
       jsearch_jobs = 0,
       rss_jobs = len (dict_get rss_data []),
       linkedin_jobs = len (dict_get linkedin_data []),
       duplicates_removed = len all_jobs - len unique_jobs,
       high_relevance = len (filter (\<lambda>j. dict_get (relevance_score j) 0 \<ge> 80) unique_jobs),
       gemini_analyzed_jobs = len (filter (\<lambda>j. dict_get (gemini_analyzed j) False) unique_jobs),
       remote_jobs = len (filter (\<lambda>j. dict_get (is_remote j) False) unique_jobs),
       by_job_type =
         fold (\<lambda>j. count_up (dict_get (job_type j) ''unknown'')) unique_jobs Map.empty,
       by_category =
         fold (\<lambda>j. count_up (dict_get (category j) ''unknown'')) unique_jobs Map.empty,
       sources = \<lparr> academic = len (dict_get academic_data []),
                   jsearch = 0,
                   rss = len (dict_get rss_data []),
                   linkedin = len (dict_get linkedin_data []) \<rparr> \<rparr>"

text \<open>The master data: the jobs and the statistics (the metadata holds time stamps).\<close>

record master_data =
  jobs :: "job list"
  statistics :: stats

definition integrate_data :: "source_data \<Rightarrow> source_data \<Rightarrow> source_data \<Rightarrow> master_data" where
  "integrate_data academic_data rss_data linkedin_data =
     (let all_jobs = combine academic_data rss_data linkedin_data;
          unique_jobs = remove_duplicates all_jobs;
          unique_jobs = rank unique_jobs
      in \<lparr> jobs = unique_jobs,
           statistics = calculate_stats academic_data rss_data linkedin_data all_jobs unique_jobs \<rparr>)"

subsection \<open>Saving the master file\<close>

text \<open>
  \<open>with open(path, 'w') as f: json.dump(master_data, f)\<close>. Opening a file for writing
  creates it or empties it; \<open>json.dump\<close> then writes the document to the file chunk
  after chunk. The files are a map from paths to contents, the chunks of the document are
  a parameter, and a run that stops early has carried out a prefix of the operations.
\<close>

type_synonym files = "string \<rightharpoonup> string"

datatype file_op = Open_w string | Write string string

fun file_step :: "file_op \<Rightarrow> files \<Rightarrow> files" where
  "file_step (Open_w p) fs = fs(p \<mapsto> [])"
| "file_step (Write p chunk) fs = fs(p \<mapsto> dict_get (fs p) [] @ chunk)"

definition master_path :: string where
  "master_path = ''data/all_jobs_integrated.json''"

definition save_master :: "string list \<Rightarrow> file_op list" where
  "save_master chunks = Open_w master_path # map (Write master_path) chunks"

definition run_ops :: "nat \<Rightarrow> file_op list \<Rightarrow> files \<Rightarrow> files" where
  "run_ops k ops fs = fold file_step (take k ops) fs"


section \<open>The documented rule list and sample data\<close>

text \<open>
  The classification as the documentation words it: an ordered list of rules, each a
  list of keywords and a job type; a rule matches when the company name contains one of
  its keywords, case not regarded; the first matching rule gives the job type, and
  \<open>industry\<close> is the job type when no rule matches.
\<close>

definition spec_job_type_rules :: "(string list \<times> string) list" where
  "spec_job_type_rules =
     [([''university'', ''college''], ''faculty''),
      ([''government'', ''federal''], ''government''),
      ([''united nations'', ''oecd''], ''international''),
      ([''foundation'', ''nonprofit''], ''nonprofit'')]"

definition spec_contains_ci :: "string \<Rightarrow> string \<Rightarrow> bool" where
  "spec_contains_ci name kw = includes_str (toLowerCase name) (toLowerCase kw)"

fun spec_first_match :: "(string list \<times> string) list \<Rightarrow> string \<Rightarrow> string" where
  "spec_first_match [] name = ''industry''"
| "spec_first_match ((kws, t) # rules) name =
     (if list_ex (spec_contains_ci name) kws then t else spec_first_match rules name)"

text \<open>Sample inputs: a search combination, raw records, and jobs of staging files.\<close>

definition ai_ethics_us :: combo where
  "ai_ethics_us = \<lparr> keyword = ''AI ethics'', location = ''United States'', experienceLevel = [] \<rparr>"

definition mit_job :: raw_job where
  "mit_job = (\<lambda>k. if k = ''position'' then Str ''AI Ethics Fellow''
                  else if k = ''company'' then Str ''MIT'' else Undefined)"

definition no_company_job :: raw_job where
  "no_company_job = (\<lambda>k. if k = ''position'' then Str ''AI Ethics Fellow''
                         else if k = ''location'' then Str ''Boston, MA'' else Undefined)"

definition published_before :: files where
  "published_before = [master_path \<mapsto> ''[0]'']"

definition sample_job :: "string \<Rightarrow> string \<Rightarrow> string \<Rightarrow> int option \<Rightarrow> job" where
  "sample_job url t site score =
     \<lparr> title = Some t, company = Some ''MIT'', source_url = Some url, source_site = Some site,
       job_type = Some ''faculty'', category = Some ''research'', relevance_score = score,
       gemini_analyzed = None, is_remote = None \<rparr>"

text \<open>A job with the default of the ranking written into a missing relevance score.\<close>

definition with_default_score :: "job \<Rightarrow> job" where
  "with_default_score j = j\<lparr>relevance_score := Some (dict_get (relevance_score j) 0)\<rparr>"

section \<open>Properties of the normalizer\<close>

lemma includes_str_sublist: "includes_str s sub \<longleftrightarrow> sublist sub s"
  by (induction s) (auto simp: sublist_Cons_right)

lemma keywords_lower:
  "toLowerCase ''university'' = ''university''"
  "toLowerCase ''college'' = ''college''"
  "toLowerCase ''government'' = ''government''"
  "toLowerCase ''federal'' = ''federal''"
  "toLowerCase ''united nations'' = ''united nations''"
  "toLowerCase ''oecd'' = ''oecd''"
  "toLowerCase ''foundation'' = ''foundation''"
  "toLowerCase ''nonprofit'' = ''nonprofit''"
  by code_simp+

lemma law_foundation_lower:
  "toLowerCase ''University of Law Foundation'' = ''university of law foundation''"
  by code_simp

lemma determineJobType_first_match:
  "determineJobType (Str name) = Inr (spec_first_match spec_job_type_rules name)"
  by (simp add: determineJobType_def spec_job_type_rules_def spec_contains_ci_def keywords_lower)

text \<open>
  Claim C6: the job type classifier evaluates its case-insensitive substring rules in the
  fixed order university/college (faculty), government/federal (government), united
  nations/oecd (international), foundation/nonprofit (nonprofit), otherwise industry, and
  the first matching rule wins. The company name "University of Law Foundation" is
  classified as faculty, although the foundation rule matches it as well.
\<close>

theorem determineJobType_rule_order:
  "determineJobType (Str name) = Inr (spec_first_match spec_job_type_rules name)
   \<and> determineJobType (Str ''University of Law Foundation'') = Inr ''faculty''
   \<and> spec_first_match (drop 3 spec_job_type_rules) ''University of Law Foundation'' = ''nonprofit''"
proof (intro conjI)
  show "determineJobType (Str name) = Inr (spec_first_match spec_job_type_rules name)"
    by (rule determineJobType_first_match)
  show "determineJobType (Str ''University of Law Foundation'') = Inr ''faculty''"
    by (simp add: determineJobType_def law_foundation_lower)
  show "spec_first_match (drop 3 spec_job_type_rules) ''University of Law Foundation'' = ''nonprofit''"
    by (simp add: spec_job_type_rules_def spec_contains_ci_def keywords_lower law_foundation_lower)
qed

theorem determineJobType_rule_order_witness:
  "determineJobType (Str ''OECD Federal Office'') = Inr ''government''"
proof -
  have "spec_first_match spec_job_type_rules ''OECD Federal Office'' = ''government''"
    by code_simp
  with determineJobType_rule_order [of "''OECD Federal Office''"] show ?thesis by simp
qed

lemma determineJobType_range:
  "determineJobType v = Inr jt \<Longrightarrow>
     jt \<in> {''faculty'', ''government'', ''international'', ''nonprofit'', ''industry''}"
  unfolding determineJobType_def by (cases v) (auto split: if_splits)

lemma distinct_fold_set_add: "distinct acc \<Longrightarrow> distinct (fold set_add xs acc)"
  by (induction xs arbitrary: acc) (auto simp: set_add_def)

lemma distinct_new_Set: "distinct (new_Set xs)"
  by (simp add: new_Set_def distinct_fold_set_add)

lemma generateTags_distinct: "generateTags t q = Inr ts \<Longrightarrow> distinct ts"
  unfolding generateTags_def by (cases t) (auto simp: Let_def distinct_new_Set)

lemma processJob_Inr:
  assumes "processJob c today job = Inr r"
  obtains jt ts where "determineJobType (job ''company'') = Inr jt"
    and "generateTags (job ''position'') (keyword c) = Inr ts"
    and "map_of r ''job_type'' = Some (JStr jt)"
    and "map_of r ''tags'' = Some (JArr ts)"
    and "map_of r ''category'' = Some (JStr ''research'')"
    and "map_of r ''relevance_score'' = Some (JNum 60)"
  using assms unfolding processJob_def
  by (auto split: sum.splits)

lemma processJob_mit:
  "processJob ai_ethics_us ''2025-01-01'' mit_job = Inr
     [(''title'', JStr ''AI Ethics Fellow''),
      (''company'', JStr ''MIT''),
      (''location'', JStr ''United States''),
      (''job_type'', JStr ''industry''),
      (''category'', JStr ''research''),
      (''description'', JStr ''LinkedIn: AI Ethics Fellow at MIT. Query: AI ethics''),
      (''posting_date'', JStr ''2025-01-01''),
      (''deadline'', JNull),
      (''source_url'', JStr []),
      (''source_site'', JStr ''linkedin''),
      (''tags'', JArr [''AI ethics'', ''AI'', ''Ethics'']),
      (''relevance_score'', JNum 60),
      (''salary_info'', JStr []),
      (''is_remote'', JUndefined),
      (''search_query'', JStr ''AI ethics''),
      (''experience_level'', JStr []),
      (''company_logo'', JStr []),
      (''ago_time'', JStr []),
      (''gemini_analyze'', JBool False)]"
  by code_simp

text \<open>
  Claim C9: every job record that the normalizer produces has a relevance score that is
  an integer between 0 and 100, a job type and a category that are not null (the job type
  is one of the five types and the category is research), and a list of tags without
  duplicate strings.
\<close>

theorem processJob_invariants:
  assumes "processJob c today job = Inr r"
  shows "(\<exists>s. map_of r ''relevance_score'' = Some (JNum s) \<and> 0 \<le> s \<and> s \<le> 100)
       \<and> (\<exists>jt. map_of r ''job_type'' = Some (JStr jt)
              \<and> jt \<in> {''faculty'', ''government'', ''international'', ''nonprofit'', ''industry''})
       \<and> map_of r ''category'' = Some (JStr ''research'')
       \<and> (\<exists>ts. map_of r ''tags'' = Some (JArr ts) \<and> distinct ts)"
proof -
  from assms obtain jt ts where
    jt: "determineJobType (job ''company'') = Inr jt" and
    ts: "generateTags (job ''position'') (keyword c) = Inr ts" and
    r: "map_of r ''job_type'' = Some (JStr jt)" "map_of r ''tags'' = Some (JArr ts)"
       "map_of r ''category'' = Some (JStr ''research'')"
       "map_of r ''relevance_score'' = Some (JNum 60)"
    by (rule processJob_Inr)
  from jt have "jt \<in> {''faculty'', ''government'', ''international'', ''nonprofit'', ''industry''}"
    by (rule determineJobType_range)
  moreover from ts have "distinct ts" by (rule generateTags_distinct)
  ultimately show ?thesis using r by simp
qed

theorem processJob_invariants_witness:
  "\<exists>r. processJob ai_ethics_us ''2025-01-01'' mit_job = Inr r
     \<and> map_of r ''category'' = Some (JStr ''research'')
     \<and> (\<exists>s. map_of r ''relevance_score'' = Some (JNum s) \<and> 0 \<le> s \<and> s \<le> 100)
     \<and> (\<exists>ts. map_of r ''tags'' = Some (JArr ts) \<and> distinct ts)"
  using processJob_invariants [OF processJob_mit] processJob_mit by blast

text \<open>
  The normalizer returns a record with all its fields when the company and the position
  are strings, and raises a TypeError when one of them is absent or null.
\<close>

lemma processJob_strings:
  assumes "job ''company'' = Str a" and "job ''position'' = Str b"
  shows "\<exists>r. processJob c today job = Inr r
           \<and> map fst r = [''title'', ''company'', ''location'', ''job_type'', ''category'',
                ''description'', ''posting_date'', ''deadline'', ''source_url'', ''source_site'',
                ''tags'', ''relevance_score'', ''salary_info'', ''is_remote'', ''search_query'',
                ''experience_level'', ''company_logo'', ''ago_time'', ''gemini_analyze'']"
  using assms by (simp add: processJob_def determineJobType_def generateTags_def Let_def)

lemma processJob_raises:
  assumes "job ''company'' \<in> {Undefined, Null} \<or> job ''position'' \<in> {Undefined, Null}"
  shows "processJob c today job = Inl TypeError"
proof (cases "job ''company'' \<in> {Undefined, Null}")
  case True
  then show ?thesis by (auto simp: processJob_def determineJobType_def)
next
  case False
  with assms have "job ''position'' \<in> {Undefined, Null}" by simp
  then have "generateTags (job ''position'') (keyword c) = Inl TypeError"
    by (auto simp: generateTags_def)
  then show ?thesis
  proof (cases "determineJobType (job ''company'')")
    case (Inl e)
    then show ?thesis by (cases e) (simp add: processJob_def)
  next
    case (Inr jt)
    with \<open>generateTags (job ''position'') (keyword c) = Inl TypeError\<close>
    show ?thesis by (simp add: processJob_def)
  qed
qed

text \<open>
  Claim C3: for every raw record, with any subset of its fields absent or null, the
  company and the position among them, the normalizer returns a complete job record and
  raises no error. The code does not: for a record without a company,
  \<open>determineJobType\<close> calls \<open>toLowerCase\<close> on \<open>undefined\<close>, and the normalizer raises a
  TypeError.
\<close>

theorem processJob_missing_company:
  "processJob ai_ethics_us ''2025-01-01'' no_company_job = Inl TypeError"
  by (simp add: processJob_def determineJobType_def no_company_job_def)


section \<open>Properties of the integration\<close>

subsection \<open>The identifier\<close>

text \<open>
  Claim C4: the identity of a job is its source URL, verbatim, when the source URL is not
  empty, so that two jobs with the same non-empty source URL have the same identity
  whatever their other fields are; otherwise it is the title and the company joined by a
  fixed separator, the hyphen (a missing title or company reads as the empty string).
\<close>

theorem job_identifier_spec:
  "(source_url j = Some u \<and> u \<noteq> [] \<longrightarrow> job_identifier j = u)
   \<and> (source_url j = Some u \<and> u \<noteq> [] \<and> source_url j' = Some u \<longrightarrow>
         job_identifier j = job_identifier j')
   \<and> (source_url j = None \<or> source_url j = Some [] \<longrightarrow>
         job_identifier j = dict_get (title j) [] @ ''-'' @ dict_get (company j) [])"
  by (auto simp: job_identifier_def)

theorem job_identifier_spec_witness:
  "job_identifier (sample_job ''http://x/1'' ''AI Ethics Fellow'' ''academic'' None) = ''http://x/1''
   \<and> job_identifier (sample_job ''http://x/1'' ''AI Ethics Fellow'' ''academic'' None)
       = job_identifier (sample_job ''http://x/1'' ''Policy Analyst'' ''linkedin'' (Some 90))
   \<and> job_identifier (sample_job [] ''AI Ethics Fellow'' ''academic'' None) = ''AI Ethics Fellow-MIT''"
proof (intro conjI)
  let ?j = "sample_job ''http://x/1'' ''AI Ethics Fellow'' ''academic'' None"
  let ?j' = "sample_job ''http://x/1'' ''Policy Analyst'' ''linkedin'' (Some 90)"
  let ?k = "sample_job [] ''AI Ethics Fellow'' ''academic'' None"
  have u: "source_url ?j = Some ''http://x/1'' \<and> ''http://x/1'' \<noteq> []
           \<and> source_url ?j' = Some ''http://x/1''"
    by (simp add: sample_job_def)
  from u job_identifier_spec [of ?j "''http://x/1''" ?j']
  show "job_identifier ?j = ''http://x/1''" by blast
  from u job_identifier_spec [of ?j "''http://x/1''" ?j']
  show "job_identifier ?j = job_identifier ?j'" by blast
  have e: "source_url ?k = Some []" "title ?k = Some ''AI Ethics Fellow''" "company ?k = Some ''MIT''"
    by (simp_all add: sample_job_def)
  from e(1) job_identifier_spec [of ?k "[]" ?k]
  have "job_identifier ?k = dict_get (title ?k) [] @ ''-'' @ dict_get (company ?k) []"
    by blast
  then show "job_identifier ?k = ''AI Ethics Fellow-MIT''"
    by (simp add: e)
qed

subsection \<open>The removal of duplicates\<close>

lemma dedup_loop_acc: "dedup_loop xs seen acc = acc @ dedup_loop xs seen []"
proof (induction xs arbitrary: seen acc)
  case Nil
  show ?case by simp
next
  case (Cons j rest)
  show ?case
  proof (cases "job_identifier j \<in> seen")
    case True
    with Cons.IH [of seen acc] show ?thesis by simp
  next
    case False
    with Cons.IH [of "insert (job_identifier j) seen" "acc @ [j]"]
         Cons.IH [of "insert (job_identifier j) seen" "[j]"]
    show ?thesis by simp
  qed
qed

lemma dedup_loop_Cons:
  "dedup_loop (j # rest) seen [] =
     (if job_identifier j \<in> seen then dedup_loop rest seen []
      else j # dedup_loop rest (insert (job_identifier j) seen) [])"
  using dedup_loop_acc [of rest "insert (job_identifier j) seen" "[j]"] by simp

lemma dedup_loop_ids:
  "job_identifier ` set (dedup_loop xs seen []) = job_identifier ` set xs - seen"
  by (induction xs arbitrary: seen) (auto simp: dedup_loop_Cons simp del: dedup_loop.simps(2))

lemma dedup_loop_distinct: "distinct (map job_identifier (dedup_loop xs seen []))"
  by (induction xs arbitrary: seen)
     (auto simp: dedup_loop_Cons dedup_loop_ids simp del: dedup_loop.simps(2))

lemma dedup_loop_find:
  "find (\<lambda>j. job_identifier j = i) (dedup_loop xs seen []) =
     (if i \<in> seen then None else find (\<lambda>j. job_identifier j = i) xs)"
proof (induction xs arbitrary: seen)
  case Nil
  show ?case by simp
next
  case (Cons j rest)
  show ?case
    by (cases "job_identifier j \<in> seen")
       (auto simp: dedup_loop_Cons Cons.IH simp del: dedup_loop.simps(2))
qed

lemma dedup_loop_subseq: "subseq (dedup_loop xs seen []) xs"
  by (induction xs arbitrary: seen) (auto simp: dedup_loop_Cons simp del: dedup_loop.simps(2))

lemma length_dedup_loop: "length (dedup_loop xs seen []) \<le> length xs"
  using dedup_loop_subseq [of xs seen] by (rule list_emb_length)

lemma find_append_left: "x \<in> set xs \<Longrightarrow> P x \<Longrightarrow> find P (xs @ ys) = find P xs"
  by (induction xs) auto

lemma remove_duplicates_sample:
  "remove_duplicates
     [sample_job ''http://x/1'' ''AI Ethics Fellow'' ''academic'' None,
      sample_job ''http://x/2'' ''Policy Analyst'' ''rss'' (Some 90),
      sample_job ''http://x/1'' ''AI Ethics Fellow'' ''linkedin'' (Some 70)]
   = [sample_job ''http://x/1'' ''AI Ethics Fellow'' ''academic'' None,
      sample_job ''http://x/2'' ''Policy Analyst'' ''rss'' (Some 90)]"
  by (simp add: remove_duplicates_def job_identifier_def sample_job_def)

text \<open>
  Claim C5: the output of the removal of duplicates holds at most one job for each
  identity, and for each identity of the input the job that it keeps is the first one of
  that identity in the order of the input; so with the sources in the order A, B and a job
  of the same identity in both, the job of the output is the one of A.
\<close>

theorem remove_duplicates_first_wins:
  "distinct (map job_identifier (remove_duplicates all_jobs))
   \<and> find (\<lambda>j. job_identifier j = i) (remove_duplicates all_jobs)
       = find (\<lambda>j. job_identifier j = i) all_jobs
   \<and> (a \<in> set A \<longrightarrow>
        find (\<lambda>j. job_identifier j = job_identifier a) (remove_duplicates (combine (Some A) B C))
          = find (\<lambda>j. job_identifier j = job_identifier a) A)"
proof (intro conjI impI)
  show "distinct (map job_identifier (remove_duplicates all_jobs))"
    by (simp add: remove_duplicates_def dedup_loop_distinct)
  show "find (\<lambda>j. job_identifier j = i) (remove_duplicates all_jobs)
          = find (\<lambda>j. job_identifier j = i) all_jobs"
    by (simp add: remove_duplicates_def dedup_loop_find)
next
  assume "a \<in> set A"
  then show "find (\<lambda>j. job_identifier j = job_identifier a)
               (remove_duplicates (combine (Some A) B C))
             = find (\<lambda>j. job_identifier j = job_identifier a) A"
    by (simp add: remove_duplicates_def dedup_loop_find combine_def find_append_left)
qed

theorem remove_duplicates_first_wins_witness:
  "find (\<lambda>j. job_identifier j = ''http://x/1'')
     (remove_duplicates (combine
        (Some [sample_job ''http://x/1'' ''AI Ethics Fellow'' ''academic'' None])
        None
        (Some [sample_job ''http://x/1'' ''AI Ethics Fellow'' ''linkedin'' (Some 70)])))
   = Some (sample_job ''http://x/1'' ''AI Ethics Fellow'' ''academic'' None)"
proof -
  let ?a = "sample_job ''http://x/1'' ''AI Ethics Fellow'' ''academic'' None"
  let ?b = "sample_job ''http://x/1'' ''AI Ethics Fellow'' ''linkedin'' (Some 70)"
  have i: "job_identifier ?a = ''http://x/1''"
    by (simp add: job_identifier_def sample_job_def)
  have m: "?a \<in> set [?a]"
    by simp
  from remove_duplicates_first_wins [of "[]" "[]" ?a "[?a]" None "Some [?b]"] m
  have "find (\<lambda>j. job_identifier j = job_identifier ?a)
          (remove_duplicates (combine (Some [?a]) None (Some [?b])))
        = find (\<lambda>j. job_identifier j = job_identifier ?a) [?a]"
    by blast
  then show ?thesis
    unfolding i by (simp add: i)
qed

text \<open>
  Claim C10: the removal of duplicates keeps the order of the input: its output is a
  subsequence of the input, the jobs at a set of positions of the input in increasing
  order of position.
\<close>

theorem remove_duplicates_subseq:
  "subseq (remove_duplicates all_jobs) all_jobs
   \<and> (\<exists>N. remove_duplicates all_jobs = nths all_jobs N)"
  using dedup_loop_subseq [of all_jobs "{}"]
  by (simp add: remove_duplicates_def subseq_conv_nths [symmetric])

theorem remove_duplicates_subseq_witness:
  "subseq
     [sample_job ''http://x/1'' ''AI Ethics Fellow'' ''academic'' None,
      sample_job ''http://x/2'' ''Policy Analyst'' ''rss'' (Some 90)]
     [sample_job ''http://x/1'' ''AI Ethics Fellow'' ''academic'' None,
      sample_job ''http://x/2'' ''Policy Analyst'' ''rss'' (Some 90),
      sample_job ''http://x/1'' ''AI Ethics Fellow'' ''linkedin'' (Some 70)]"
  using remove_duplicates_subseq
          [of "[sample_job ''http://x/1'' ''AI Ethics Fellow'' ''academic'' None,
                sample_job ''http://x/2'' ''Policy Analyst'' ''rss'' (Some 90),
                sample_job ''http://x/1'' ''AI Ethics Fellow'' ''linkedin'' (Some 70)]"]
  unfolding remove_duplicates_sample by (rule conjunct1)


subsection \<open>The ranking\<close>

lemma list_sort_reverse_sorted:
  "sorted_wrt (\<lambda>a b. f a \<ge> f b) (list_sort f True xs)"
proof -
  have "sorted (map f (sort_key f (rev xs)))" by simp
  then have "sorted_wrt (\<lambda>a b. f a \<le> f b) (sort_key f (rev xs))"
    by (simp add: sorted_map)
  then have "sorted_wrt (\<lambda>a b. f b \<le> f a) (rev (sort_key f (rev xs)))"
    by (simp add: sorted_wrt_rev)
  then show ?thesis by (simp add: list_sort_def)
qed

lemma list_sort_reverse_stable:
  "filter (\<lambda>y. f y = k) (list_sort f True xs) = filter (\<lambda>y. f y = k) xs"
  by (simp add: list_sort_def rev_filter [symmetric] sort_key_stable)

lemma length_list_sort: "length (list_sort f r xs) = length xs"
  by (simp add: list_sort_def)

lemma insort_key_map:
  "insort_key f (g x) (map g ys) = map g (insort_key (\<lambda>y. f (g y)) x ys)"
  by (induction ys) auto

lemma sort_key_map:
  "sort_key f (map g xs) = map g (sort_key (\<lambda>y. f (g y)) xs)"
  by (induction xs) (auto simp: insort_key_map)

lemma list_sort_map:
  "list_sort f r (map g xs) = map g (list_sort (\<lambda>y. f (g y)) r xs)"
  by (simp add: list_sort_def sort_key_map rev_map)

lemma relevance_key_with_default_score:
  "relevance_key (with_default_score j) = relevance_key j"
  by (simp add: relevance_key_def with_default_score_def)

lemma rank_with_default_score:
  "rank (map with_default_score xs) = map with_default_score (rank xs)"
  by (simp add: rank_def list_sort_map relevance_key_with_default_score)

text \<open>
  Claim C7: for every input the output of the ranking is non-increasing in the relevance
  score, and jobs of equal score are in the output in the order that they had in the
  input; for the scores 40, 90, 90, 60 the output has the scores 90, 90, 60, 40, the two
  jobs of score 90 in their order of the input.
\<close>

theorem rank_descending_stable:
  "sorted_wrt (\<lambda>a b. relevance_key a \<ge> relevance_key b) (rank xs)
   \<and> filter (\<lambda>j. relevance_key j = k) (rank xs) = filter (\<lambda>j. relevance_key j = k) xs
   \<and> (relevance_score a = Some 40 \<and> relevance_score b = Some 90
        \<and> relevance_score c = Some 90 \<and> relevance_score d = Some 60
       \<longrightarrow> rank [a, b, c, d] = [b, c, d, a])"
proof (intro conjI impI)
  show "sorted_wrt (\<lambda>a b. relevance_key a \<ge> relevance_key b) (rank xs)"
    unfolding rank_def by (rule list_sort_reverse_sorted)
  show "filter (\<lambda>j. relevance_key j = k) (rank xs) = filter (\<lambda>j. relevance_key j = k) xs"
    unfolding rank_def by (rule list_sort_reverse_stable)
next
  assume "relevance_score a = Some 40 \<and> relevance_score b = Some 90
        \<and> relevance_score c = Some 90 \<and> relevance_score d = Some 60"
  then show "rank [a, b, c, d] = [b, c, d, a]"
    by (simp add: rank_def list_sort_def relevance_key_def)
qed

theorem rank_descending_stable_witness:
  "rank [sample_job ''http://x/1'' ''A'' ''rss'' (Some 40),
         sample_job ''http://x/2'' ''B'' ''rss'' (Some 90),
         sample_job ''http://x/3'' ''C'' ''rss'' (Some 90),
         sample_job ''http://x/4'' ''D'' ''rss'' (Some 60)]
   = [sample_job ''http://x/2'' ''B'' ''rss'' (Some 90),
      sample_job ''http://x/3'' ''C'' ''rss'' (Some 90),
      sample_job ''http://x/4'' ''D'' ''rss'' (Some 60),
      sample_job ''http://x/1'' ''A'' ''rss'' (Some 40)]"
proof -
  let ?a = "sample_job ''http://x/1'' ''A'' ''rss'' (Some 40)"
  let ?b = "sample_job ''http://x/2'' ''B'' ''rss'' (Some 90)"
  let ?c = "sample_job ''http://x/3'' ''C'' ''rss'' (Some 90)"
  let ?d = "sample_job ''http://x/4'' ''D'' ''rss'' (Some 60)"
  have "relevance_score ?a = Some 40 \<and> relevance_score ?b = Some 90
        \<and> relevance_score ?c = Some 90 \<and> relevance_score ?d = Some 60"
    by (simp add: sample_job_def)
  with rank_descending_stable [of "[]" 0 ?a ?b ?c ?d] show ?thesis
    by blast
qed

text \<open>
  Claim C1, as the code has it: for a job without a relevance score the key of the
  ranking is the default 0, so that the job is ranked as if its score were 0: the ranking
  orders the jobs as it orders them with 0 written into the missing scores, a job without
  a score comes after every job of positive score, and it is level with the jobs of
  score 0, in the order of the input.
\<close>

theorem rank_missing_score_key:
  "relevance_score j = None \<Longrightarrow>
     relevance_key j = 0
     \<and> with_default_score j = j\<lparr>relevance_score := Some 0\<rparr>
     \<and> rank (map with_default_score xs) = map with_default_score (rank xs)
     \<and> (relevance_score k = Some s \<and> 0 < s \<longrightarrow> rank [j, k] = [k, j] \<and> rank [k, j] = [k, j])
     \<and> (relevance_score k = Some 0 \<longrightarrow> rank [j, k] = [j, k] \<and> rank [k, j] = [k, j])"
  by (simp add: rank_with_default_score)
     (simp add: rank_def list_sort_def relevance_key_def with_default_score_def)

theorem rank_missing_score_key_witness:
  "relevance_key (sample_job ''http://x/1'' ''Fellow'' ''rss'' None) = 0
   \<and> rank [sample_job ''http://x/1'' ''Fellow'' ''rss'' None,
            sample_job ''http://x/2'' ''Analyst'' ''rss'' (Some 30)]
       = [sample_job ''http://x/2'' ''Analyst'' ''rss'' (Some 30),
          sample_job ''http://x/1'' ''Fellow'' ''rss'' None]"
proof -
  let ?j = "sample_job ''http://x/1'' ''Fellow'' ''rss'' None"
  let ?k = "sample_job ''http://x/2'' ''Analyst'' ''rss'' (Some 30)"
  have n: "relevance_score ?j = None"
    by (simp add: sample_job_def)
  have p: "relevance_score ?k = Some 30 \<and> (0::int) < 30"
    by (simp add: sample_job_def)
  from rank_missing_score_key [OF n, where k = ?k and s = 30] p show ?thesis
    by blast
qed

text \<open>
  The key of a job without a relevance score is not 60: the ranking puts such a job after
  a job of score 30.
\<close>

theorem rank_missing_score_not_60:
  "relevance_score (sample_job ''http://x/1'' ''Fellow'' ''rss'' None) = None
   \<and> relevance_key (sample_job ''http://x/1'' ''Fellow'' ''rss'' None) \<noteq> 60
   \<and> rank [sample_job ''http://x/1'' ''Fellow'' ''rss'' None,
            sample_job ''http://x/2'' ''Analyst'' ''rss'' (Some 30)]
       = [sample_job ''http://x/2'' ''Analyst'' ''rss'' (Some 30),
          sample_job ''http://x/1'' ''Fellow'' ''rss'' None]"
  by (simp add: rank_def list_sort_def relevance_key_def sample_job_def)

subsection \<open>The statistics\<close>

text \<open>
  Claim C8: for all arrays of jobs of the sources, the counter \<open>duplicates_removed\<close> is
  the sum of the counts of the sources before the removal of duplicates minus the number
  of jobs of the final sequence.
\<close>

theorem duplicates_removed_arithmetic:
  "duplicates_removed (statistics (integrate_data a r l))
     = (academic_jobs (statistics (integrate_data a r l))
        + jsearch_jobs (statistics (integrate_data a r l))
        + rss_jobs (statistics (integrate_data a r l))
        + linkedin_jobs (statistics (integrate_data a r l)))
       - len (jobs (integrate_data a r l))
   \<and> academic_jobs (statistics (integrate_data a r l)) = len (dict_get a [])
   \<and> jsearch_jobs (statistics (integrate_data a r l)) = 0
   \<and> rss_jobs (statistics (integrate_data a r l)) = len (dict_get r [])
   \<and> linkedin_jobs (statistics (integrate_data a r l)) = len (dict_get l [])
   \<and> total_jobs (statistics (integrate_data a r l)) = len (jobs (integrate_data a r l))
   \<and> 0 \<le> duplicates_removed (statistics (integrate_data a r l))"
proof -
  have "length (rank (remove_duplicates (combine a r l))) \<le> length (combine a r l)"
    by (simp add: rank_def length_list_sort remove_duplicates_def length_dedup_loop)
  then show ?thesis
    by (simp add: integrate_data_def calculate_stats_def Let_def len_def combine_def)
qed

theorem duplicates_removed_arithmetic_witness:
  "duplicates_removed (statistics (integrate_data
      (Some [sample_job ''http://x/1'' ''AI Ethics Fellow'' ''academic'' None,
             sample_job ''http://x/2'' ''Policy Analyst'' ''academic'' (Some 90)])
      None
      (Some [sample_job ''http://x/1'' ''AI Ethics Fellow'' ''linkedin'' (Some 70)])))
   = 2 + 0 + 0 + 1 - 2"
proof -
  let ?a = "Some [sample_job ''http://x/1'' ''AI Ethics Fellow'' ''academic'' None,
                  sample_job ''http://x/2'' ''Policy Analyst'' ''academic'' (Some 90)]"
  let ?l = "Some [sample_job ''http://x/1'' ''AI Ethics Fellow'' ''linkedin'' (Some 70)]"
  have "remove_duplicates (combine ?a None ?l)
        = [sample_job ''http://x/1'' ''AI Ethics Fellow'' ''academic'' None,
           sample_job ''http://x/2'' ''Policy Analyst'' ''academic'' (Some 90)]"
    by (simp add: remove_duplicates_def combine_def job_identifier_def sample_job_def)
  then have "len (jobs (integrate_data ?a None ?l)) = 2"
    by (simp add: integrate_data_def Let_def rank_def length_list_sort len_def)
  with duplicates_removed_arithmetic [of ?a None ?l] show ?thesis
    by (simp add: len_def)
qed

subsection \<open>The master file\<close>

lemma fold_write:
  "fs p = Some old \<Longrightarrow>
     fold file_step (map (Write p) cs) fs = fs(p \<mapsto> old @ concat cs)"
  by (induction cs arbitrary: fs old) auto

lemma run_ops_save_master_Suc:
  "run_ops (Suc n) (save_master chunks) fs = fs(master_path \<mapsto> concat (take n chunks))"
  by (simp add: run_ops_def save_master_def take_map fold_write)

text \<open>
  Claim C2, as the code has it: the master file is written in place, with no temporary
  file and no rename. Opening the file empties it, and each write appends a chunk to it:
  a run that carries out \<open>k\<close> of the operations changes no other path, leaves the master
  file as it was when \<open>k = 0\<close>, leaves there the chunks written so far when \<open>k > 0\<close>, and
  leaves there the complete document when it carries out all the operations.
\<close>

theorem save_master_in_place:
  "run_ops 0 (save_master chunks) fs = fs
   \<and> (p \<noteq> master_path \<longrightarrow> run_ops k (save_master chunks) fs p = fs p)
   \<and> (0 < k \<longrightarrow>
        run_ops k (save_master chunks) fs master_path = Some (concat (take (k - 1) chunks)))
   \<and> (length chunks < k \<longrightarrow>
        run_ops k (save_master chunks) fs master_path = Some (concat chunks))"
proof (cases k)
  case 0
  then show ?thesis by (simp add: run_ops_def)
next
  case (Suc n)
  then show ?thesis by (simp add: run_ops_save_master_Suc) (simp add: run_ops_def)
qed

theorem save_master_in_place_witness:
  "run_ops 3 (save_master [''[1, '', ''2]'']) published_before master_path = Some ''[1, 2]''
   \<and> run_ops 1 (save_master [''[1, '', ''2]'']) published_before ''data/jobs.json'' = None"
proof -
  have a: "length [''[1, '', ''2]''] < (3::nat)"
    by simp
  have b: "''data/jobs.json'' \<noteq> master_path"
    by (simp add: master_path_def)
  from save_master_in_place [of "[''[1, '', ''2]'']" published_before "''data/jobs.json''" 3] a
  have "run_ops 3 (save_master [''[1, '', ''2]'']) published_before master_path
          = Some (concat [''[1, '', ''2]''])"
    by blast
  moreover
  from save_master_in_place [of "[''[1, '', ''2]'']" published_before "''data/jobs.json''" 1] b
  have "run_ops 1 (save_master [''[1, '', ''2]'']) published_before ''data/jobs.json''
          = published_before ''data/jobs.json''"
    by blast
  ultimately show ?thesis using b by (simp add: published_before_def)
qed

text \<open>
  A run that stops after the first write leaves at the path of the master file neither
  the file that was there before nor the complete document.
\<close>

theorem save_master_not_atomic:
  "published_before master_path = Some ''[0]''
   \<and> run_ops 2 (save_master [''[1, '', ''2]'']) published_before master_path = Some ''[1, ''
   \<and> concat [''[1, '', ''2]''] = ''[1, 2]''"
  by (simp add: run_ops_def save_master_def numeral_2_eq_2 published_before_def)

end
